theory Spec2Isabelle
  imports
    Complex_Main
    "HOL-Library.Char_ord"
    "HOL-Library.List_Lexorder"
    "HOL-Library.Product_Lexorder"
    "HOL-Library.Option_ord"
    "HOL-Library.Multiset"
begin

section \<open>Python values used by the index builder\<close>

text \<open>
  Source: \<^verbatim>\<open>src/zipsearch/bin/build_fast_indices.py\<close>. A Python \<^verbatim>\<open>str\<close> is modelled
  as a \<open>string\<close>; the model covers ASCII text, where one character is one code point
  (characters from 128 on are treated as uncased and not white space). A Python
  \<^verbatim>\<open>float\<close> is the real number it denotes, or one of the three non-finite values; the
  rounding and the overflow of a double product are not part of the model, the product
  of two finite values is taken exactly.
\<close>

datatype pyfloat = Fin real | PInf | NInf | NaN

datatype error =
  FileNotFoundError
  | SqliteError
  | OverflowError
  | ValueError

text \<open>\<^verbatim>\<open>x * 10\<close> on a float.\<close>

fun times10 :: "pyfloat \<Rightarrow> pyfloat" where
  "times10 (Fin x) = Fin (x * 10)"
| "times10 PInf = PInf"
| "times10 NInf = NInf"
| "times10 NaN = NaN"

text \<open>
  \<^verbatim>\<open>int(x)\<close> on a float: truncation towards zero; \<^verbatim>\<open>OverflowError\<close> on an
  infinity and \<^verbatim>\<open>ValueError\<close> on a NaN.
\<close>

definition trunc :: "real \<Rightarrow> int" where
  "trunc x = (if 0 \<le> x then \<lfloor>x\<rfloor> else \<lceil>x\<rceil>)"

fun py_int :: "pyfloat \<Rightarrow> error + int" where
  "py_int (Fin x) = Inr (trunc x)"
| "py_int PInf = Inl OverflowError"
| "py_int NInf = Inl OverflowError"
| "py_int NaN = Inl ValueError"

text \<open>\<^verbatim>\<open>str.isspace\<close>, \<^verbatim>\<open>str.upper\<close>, \<^verbatim>\<open>str.lower\<close> and casedness on one ASCII character.\<close>

definition is_space :: "char \<Rightarrow> bool" where
  "is_space c = (let n = (of_char c :: nat) in (9 \<le> n \<and> n \<le> 13) \<or> (28 \<le> n \<and> n \<le> 32))"

definition is_lower :: "char \<Rightarrow> bool" where
  "is_lower c = (let n = (of_char c :: nat) in 97 \<le> n \<and> n \<le> 122)"

definition is_upper :: "char \<Rightarrow> bool" where
  "is_upper c = (let n = (of_char c :: nat) in 65 \<le> n \<and> n \<le> 90)"

definition is_cased :: "char \<Rightarrow> bool" where
  "is_cased c = (is_lower c \<or> is_upper c)"

definition is_digit :: "char \<Rightarrow> bool" where
  "is_digit c = (let n = (of_char c :: nat) in 48 \<le> n \<and> n \<le> 57)"

definition upper_char :: "char \<Rightarrow> char" where
  "upper_char c = (if is_lower c then char_of ((of_char c :: nat) - 32) else c)"

definition lower_char :: "char \<Rightarrow> char" where
  "lower_char c = (if is_upper c then char_of ((of_char c :: nat) + 32) else c)"

text \<open>\<^verbatim>\<open>s.strip()\<close>: white space removed at both ends.\<close>

definition py_strip :: "string \<Rightarrow> string" where
  "py_strip s = rev (dropWhile is_space (rev (dropWhile is_space s)))"

text \<open>\<^verbatim>\<open>s.upper()\<close>.\<close>

definition py_upper :: "string \<Rightarrow> string" where
  "py_upper s = map upper_char s"

text \<open>
  \<^verbatim>\<open>s.title()\<close>: a character that follows a cased character is lowered, any other
  one is raised; the flag is whether the previous character was cased.
\<close>

fun title_from :: "bool \<Rightarrow> string \<Rightarrow> string" where
  "title_from prev [] = []"
| "title_from prev (c # cs) =
     (if prev then lower_char c else upper_char c) # title_from (is_cased c) cs"

definition py_title :: "string \<Rightarrow> string" where
  "py_title s = title_from False s"

text \<open>
  \<^verbatim>\<open>s.zfill(width)\<close>: a string of at least \<open>width\<close> characters is returned as it
  is; a shorter one is filled with zeros on the left, after a leading sign.
\<close>

definition zfill :: "nat \<Rightarrow> string \<Rightarrow> string" where
  "zfill width s =
     (if width \<le> length s then s
      else (case s of
              [] \<Rightarrow> replicate width (CHR ''0'')
            | c # cs \<Rightarrow>
                if c = CHR ''+'' \<or> c = CHR ''-''
                then c # replicate (width - length s) (CHR ''0'') @ cs
                else replicate (width - length s) (CHR ''0'') @ s))"

text \<open>
  \<^verbatim>\<open>f(x) if x else None\<close> on an optional string: \<^verbatim>\<open>None\<close> and the empty string
  are both false.
\<close>

definition if_truthy :: "(string \<Rightarrow> string) \<Rightarrow> string option \<Rightarrow> string option" where
  "if_truthy f x =
     (case x of None \<Rightarrow> None | Some s \<Rightarrow> if s = [] then None else Some (f s))"

definition truthy :: "string option \<Rightarrow> bool" where
  "truthy x = (case x of None \<Rightarrow> False | Some s \<Rightarrow> s \<noteq> [])"

section \<open>Rows and records\<close>

text \<open>
  One row of \<^verbatim>\<open>simple_zipcode\<close>, the 24 columns in the order of the SELECT. A
  column holds NULL or a value of the type that the dataclass declares for its field;
  the two blob columns hold bytes.
\<close>

record row =
  r_zipcode :: "string option"
  r_zipcode_type :: "string option"
  r_major_city :: "string option"
  r_post_office_city :: "string option"
  r_common_city_list_blob :: "string option"
  r_county :: "string option"
  r_state :: "string option"
  r_lat :: "pyfloat option"
  r_lng :: "pyfloat option"
  r_timezone :: "string option"
  r_radius_in_miles :: "pyfloat option"
  r_area_code_list_blob :: "string option"
  r_population :: "int option"
  r_population_density :: "pyfloat option"
  r_land_area_in_sqmi :: "pyfloat option"
  r_water_area_in_sqmi :: "pyfloat option"
  r_housing_units :: "int option"
  r_occupied_housing_units :: "int option"
  r_median_home_value :: "int option"
  r_median_household_income :: "int option"
  r_bounds_west :: "pyfloat option"
  r_bounds_east :: "pyfloat option"
  r_bounds_north :: "pyfloat option"
  r_bounds_south :: "pyfloat option"

text \<open>The dataclass \<^verbatim>\<open>FastZipcode\<close>; its \<^verbatim>\<open>__dict__\<close> is what the indices store.\<close>

record FastZipcode =
  zipcode :: "string option"
  zipcode_type :: "string option"
  major_city :: "string option"
  post_office_city :: "string option"
  common_city_list :: "string list option"
  county :: "string option"
  state :: "string option"
  lat :: "pyfloat option"
  lng :: "pyfloat option"
  timezone :: "string option"
  radius_in_miles :: "pyfloat option"
  area_code_list :: "string list option"
  population :: "int option"
  population_density :: "pyfloat option"
  land_area_in_sqmi :: "pyfloat option"
  water_area_in_sqmi :: "pyfloat option"
  housing_units :: "int option"
  occupied_housing_units :: "int option"
  median_home_value :: "int option"
  median_household_income :: "int option"
  bounds_west :: "pyfloat option"
  bounds_east :: "pyfloat option"
  bounds_north :: "pyfloat option"
  bounds_south :: "pyfloat option"

text \<open>
  The constructor call of lines 100 to 125. \<^verbatim>\<open>_decode_blob\<close> lives in
  \<^verbatim>\<open>zipsearch.utils\<close>, outside the files at hand, and is a parameter.
\<close>

definition make_record :: "(string option \<Rightarrow> string list option) \<Rightarrow> row \<Rightarrow> FastZipcode" where
  "make_record decode_blob r =
     \<lparr> zipcode = if_truthy (zfill 5) (r_zipcode r),
       zipcode_type = r_zipcode_type r,
       major_city = if_truthy (\<lambda>s. py_title (py_strip s)) (r_major_city r),
       post_office_city = if_truthy (\<lambda>s. py_title (py_strip s)) (r_post_office_city r),
       common_city_list = decode_blob (r_common_city_list_blob r),
       county = r_county r,
       state = if_truthy (\<lambda>s. py_upper (py_strip s)) (r_state r),
       lat = r_lat r,
       lng = r_lng r,
       timezone = r_timezone r,
       radius_in_miles = r_radius_in_miles r,
       area_code_list = decode_blob (r_area_code_list_blob r),
       population = r_population r,
       population_density = r_population_density r,
       land_area_in_sqmi = r_land_area_in_sqmi r,
       water_area_in_sqmi = r_water_area_in_sqmi r,
       housing_units = r_housing_units r,
       occupied_housing_units = r_occupied_housing_units r,
       median_home_value = r_median_home_value r,
       median_household_income = r_median_household_income r,
       bounds_west = r_bounds_west r,
       bounds_east = r_bounds_east r,
       bounds_north = r_bounds_north r,
       bounds_south = r_bounds_south r \<rparr>"

section \<open>The three indices\<close>

text \<open>
  The dictionaries \<^verbatim>\<open>zipcode_index\<close>, \<^verbatim>\<open>city_state_index\<close> and
  \<^verbatim>\<open>coordinate_grid\<close>, which are also the three sections of the pickled container.
\<close>

record all_indices =
  zipcode_index :: "string \<rightharpoonup> FastZipcode"
  city_state_index :: "(string \<times> string) \<rightharpoonup> FastZipcode list"
  coordinate_grid :: "(int \<times> int) \<rightharpoonup> FastZipcode list"

definition empty_indices :: all_indices where
  "empty_indices =
     \<lparr> zipcode_index = Map.empty, city_state_index = Map.empty, coordinate_grid = Map.empty \<rparr>"

text \<open>
  \<^verbatim>\<open>if key not in d: d[key] = []\<close> followed by \<^verbatim>\<open>d[key].append(x)\<close>.
\<close>

definition append_at :: "('k \<rightharpoonup> 'v list) \<Rightarrow> 'k \<Rightarrow> 'v \<Rightarrow> ('k \<rightharpoonup> 'v list)" where
  "append_at d k x = d(k \<mapsto> (case d k of None \<Rightarrow> [] | Some xs \<Rightarrow> xs) @ [x])"

text \<open>Lines 127 to 129: the primary index, guarded by the truth value of the code.\<close>

definition put_zipcode :: "FastZipcode \<Rightarrow> (string \<rightharpoonup> FastZipcode) \<Rightarrow> (string \<rightharpoonup> FastZipcode)" where
  "put_zipcode z m =
     (case zipcode z of
        None \<Rightarrow> m
      | Some c \<Rightarrow> if c = [] then m else m(c \<mapsto> z))"

text \<open>Lines 131 to 136: the key of the city/state index, when the guard lets the row in.\<close>

definition city_state_key :: "FastZipcode \<Rightarrow> (string \<times> string) option" where
  "city_state_key z =
     (if truthy (major_city z) \<and> truthy (state z)
      then (case (major_city z, state z) of
              (Some c, Some s) \<Rightarrow> Some (c, s)
            | _ \<Rightarrow> None)
      else None)"

definition put_city_state ::
  "FastZipcode \<Rightarrow> ((string \<times> string) \<rightharpoonup> FastZipcode list) \<Rightarrow> ((string \<times> string) \<rightharpoonup> FastZipcode list)" where
  "put_city_state z m =
     (case city_state_key z of None \<Rightarrow> m | Some k \<Rightarrow> append_at m k z)"

text \<open>
  Lines 139 to 142: the grid key. \<^verbatim>\<open>int(lat * 10)\<close> is evaluated first and may
  raise, then \<^verbatim>\<open>int(lng * 10)\<close>.
\<close>

definition grid_key :: "FastZipcode \<Rightarrow> error + (int \<times> int) option" where
  "grid_key z =
     (case (lat z, lng z) of
        (Some la, Some lo) \<Rightarrow>
          (case py_int (times10 la) of
             Inl e \<Rightarrow> Inl e
           | Inr lat_grid \<Rightarrow>
               (case py_int (times10 lo) of
                  Inl e \<Rightarrow> Inl e
                | Inr lng_grid \<Rightarrow> Inr (Some (lat_grid, lng_grid))))
      | _ \<Rightarrow> Inr None)"

definition put_grid ::
  "FastZipcode \<Rightarrow> ((int \<times> int) \<rightharpoonup> FastZipcode list) \<Rightarrow> error + ((int \<times> int) \<rightharpoonup> FastZipcode list)" where
  "put_grid z m =
     (case grid_key z of
        Inl e \<Rightarrow> Inl e
      | Inr None \<Rightarrow> Inr m
      | Inr (Some k) \<Rightarrow> Inr (append_at m k z))"

text \<open>
  One turn of the loop over the rows (lines 91 to 145). The three dictionaries are
  updated in the order of the source; an exception of the grid step ends the build, and
  nothing is written afterwards, so the updates made before it are lost with it.
\<close>

definition insert_row ::
  "(string option \<Rightarrow> string list option) \<Rightarrow> row \<Rightarrow> all_indices \<Rightarrow> error + all_indices" where
  "insert_row decode_blob r idx =
     (let zipcode_data = make_record decode_blob r;
          zi = put_zipcode zipcode_data (zipcode_index idx);
          ci = put_city_state zipcode_data (city_state_index idx)
      in case put_grid zipcode_data (coordinate_grid idx) of
           Inl e \<Rightarrow> Inl e
         | Inr gi \<Rightarrow>
             Inr \<lparr> zipcode_index = zi, city_state_index = ci, coordinate_grid = gi \<rparr>)"

fun build_rows ::
  "(string option \<Rightarrow> string list option) \<Rightarrow> row list \<Rightarrow> all_indices \<Rightarrow> error + all_indices" where
  "build_rows decode_blob [] idx = Inr idx"
| "build_rows decode_blob (r # rs) idx =
     (case insert_row decode_blob r idx of
        Inl e \<Rightarrow> Inl e
      | Inr idx' \<Rightarrow> build_rows decode_blob rs idx')"

section \<open>The whole build\<close>

text \<open>
  What the build touches outside itself: which paths exist, what
  \<^verbatim>\<open>sqlite3.connect\<close>, the SELECT and \<^verbatim>\<open>fetchall\<close> give for a path (\<open>None\<close> when
  one of them raises), the content of \<^verbatim>\<open>indices.bin\<close> (\<open>None\<close> while the file does
  not exist) and the lines printed. The size in MB that the second line prints is
  left out of the message, it is a property of the pickle encoding.
\<close>

datatype msg =
  Building string
  | Built nat
  | Saved string

record world =
  path_exists :: "string \<Rightarrow> bool"
  expanduser :: "string \<Rightarrow> string"
  home :: string
  sqlite_rows :: "string \<Rightarrow> row list option"
  indices_bin :: "all_indices option"
  stdout :: "msg list"

text \<open>Lines 52 to 65: the first candidate path that exists, expanded.\<close>

definition possible_paths :: "world \<Rightarrow> string list" where
  "possible_paths w =
     [''simple_db.sqlite'',
      ''~/.zipsearch/simple_db.sqlite'',
      home w @ ''/.zipsearch/simple_db.sqlite'']"

fun first_existing :: "world \<Rightarrow> string list \<Rightarrow> string option" where
  "first_existing w [] = None"
| "first_existing w (p # ps) =
     (if path_exists w (expanduser w p) then Some (expanduser w p) else first_existing w ps)"

definition find_sqlite :: "world \<Rightarrow> string option \<Rightarrow> error + string" where
  "find_sqlite w sqlite_path =
     (case sqlite_path of
        Some p \<Rightarrow> Inr p
      | None \<Rightarrow>
          (case first_existing w (possible_paths w) of
             None \<Rightarrow> Inl FileNotFoundError
           | Some p \<Rightarrow> Inr p))"

text \<open>
  Lines 74 to 84 and 91: a path that does not exist gives a new empty database, on which
  the SELECT raises; so does a file that cannot be read as the expected table.
\<close>

definition fetchall :: "world \<Rightarrow> string \<Rightarrow> error + row list" where
  "fetchall w p =
     (if path_exists w p
      then (case sqlite_rows w p of None \<Rightarrow> Inl SqliteError | Some rows \<Rightarrow> Inr rows)
      else Inl SqliteError)"

text \<open>
  \<^verbatim>\<open>build_fast_indices\<close>. The result is the world after the call and the exception
  that ended it, if any. \<^verbatim>\<open>len(zipcode_index)\<close> is the number of keys.
\<close>

definition build_fast_indices ::
  "(string option \<Rightarrow> string list option) \<Rightarrow> string option \<Rightarrow> world \<Rightarrow> world \<times> error option" where
  "build_fast_indices decode_blob sqlite_path w =
     (case find_sqlite w sqlite_path of
        Inl e \<Rightarrow> (w, Some e)
      | Inr p \<Rightarrow>
          (let w1 = w\<lparr>stdout := stdout w @ [Building p]\<rparr>
           in case fetchall w1 p of
                Inl e \<Rightarrow> (w1, Some e)
              | Inr rows \<Rightarrow>
                  (case build_rows decode_blob rows empty_indices of
                     Inl e \<Rightarrow> (w1, Some e)
                   | Inr all \<Rightarrow>
                       (w1\<lparr>indices_bin := Some all,
                           stdout := stdout w1 @
                             [Built (card (dom (zipcode_index all))), Saved ''indices.bin'']\<rparr>,
                        None))))"

section \<open>The lookup engine: distance and radius search\<close>

text \<open>
  Modelled from the spec: the body of \<^verbatim>\<open>_haversine_distance\<close> is missing from
  \<^verbatim>\<open>src/zipsearch/FastSearchEngine.py\<close>, which holds the signature and the docstring
  only. Section 4.2 of the specification: the standard Haversine great-circle formula
  on coordinates in decimal degrees, with the mean Earth radius of 3958.8 miles. The
  formula is taken over the real numbers.
\<close>

definition radians :: "real \<Rightarrow> real" where
  "radians x = x * pi / 180"

text \<open>
  Modelled from the spec: \<^verbatim>\<open>_haversine_distance\<close>, whose body is missing; the
  great-circle distance in miles between two points given in degrees.
\<close>

definition haversine_distance :: "real \<Rightarrow> real \<Rightarrow> real \<Rightarrow> real \<Rightarrow> real" where
  "haversine_distance lat1 lng1 lat2 lng2 =
     (let dlat = radians lat2 - radians lat1;
          dlng = radians lng2 - radians lng1;
          a = (sin (dlat / 2))\<^sup>2
              + cos (radians lat1) * cos (radians lat2) * (sin (dlng / 2))\<^sup>2
      in 3958.8 * (2 * arcsin (sqrt a)))"

text \<open>The list stored under a key, empty when the key is absent.\<close>

definition entries :: "('k \<rightharpoonup> 'v list) \<Rightarrow> 'k \<Rightarrow> 'v list" where
  "entries m k = (case m k of None \<Rightarrow> [] | Some xs \<Rightarrow> xs)"

text \<open>
  Modelled from the spec: the body of \<^verbatim>\<open>by_coordinates\<close> is missing from
  \<^verbatim>\<open>src/zipsearch/FastSearchEngine.py\<close> as well. Section 4.2 of the specification:
  the home bucket of the query point; a window of
  \<open>\<lceil>radius / width\<rceil> + 1\<close> buckets around it in both directions, where the width of
  a bucket in miles at the latitude of the query is a parameter, since the
  specification gives no formula for it; the Haversine distance of every record in the
  scanned buckets; the records within the radius kept and sorted by distance, ties by
  code. A record with no finite coordinates has no distance and is not kept.
\<close>

definition home_bucket :: "real \<Rightarrow> real \<Rightarrow> int \<times> int" where
  "home_bucket lat' lng' = (\<lfloor>lat' * 10\<rfloor>, \<lfloor>lng' * 10\<rfloor>)"

text \<open>
  Modelled from the spec: the keys of the scanned window, a part of the missing body of
  \<^verbatim>\<open>by_coordinates\<close>.
\<close>

definition window_keys :: "(real \<Rightarrow> real) \<Rightarrow> real \<Rightarrow> real \<Rightarrow> real \<Rightarrow> (int \<times> int) list" where
  "window_keys bucket_miles lat' lng' radius =
     (let n = \<lceil>radius / bucket_miles lat'\<rceil> + 1;
          h = home_bucket lat' lng'
      in concat (map (\<lambda>i. map (\<lambda>j. (fst h + i, snd h + j)) [- n..n]) [- n..n]))"

text \<open>
  Modelled from the spec: the candidate records, those of the scanned buckets in the
  order of the scan; a part of the missing body of \<^verbatim>\<open>by_coordinates\<close>.
\<close>

definition candidates ::
  "((int \<times> int) \<rightharpoonup> FastZipcode list) \<Rightarrow> (int \<times> int) list \<Rightarrow> FastZipcode list" where
  "candidates grid keys = concat (map (entries grid) keys)"

text \<open>
  Modelled from the spec: the distance from the query point to a candidate and the
  test against the radius; parts of the missing body of \<^verbatim>\<open>by_coordinates\<close>.
\<close>

definition record_distance :: "real \<Rightarrow> real \<Rightarrow> FastZipcode \<Rightarrow> real option" where
  "record_distance lat' lng' z =
     (case (lat z, lng z) of
        (Some (Fin a), Some (Fin b)) \<Rightarrow> Some (haversine_distance lat' lng' a b)
      | _ \<Rightarrow> None)"

definition within_radius :: "real \<Rightarrow> real \<Rightarrow> real \<Rightarrow> FastZipcode \<Rightarrow> bool" where
  "within_radius lat' lng' radius z =
     (case record_distance lat' lng' z of None \<Rightarrow> False | Some dst \<Rightarrow> dst \<le> radius)"

text \<open>
  Modelled from the spec: \<^verbatim>\<open>by_coordinates\<close>, whose body is missing. The sort is
  stable, as Python's is, on the key made of the distance and the code.
\<close>

definition by_coordinates ::
  "(real \<Rightarrow> real) \<Rightarrow> ((int \<times> int) \<rightharpoonup> FastZipcode list) \<Rightarrow> real \<Rightarrow> real \<Rightarrow> real
     \<Rightarrow> FastZipcode list" where
  "by_coordinates bucket_miles grid lat' lng' radius =
     sort_key (\<lambda>z. (record_distance lat' lng' z, zipcode z))
       (filter (within_radius lat' lng' radius)
          (candidates grid (window_keys bucket_miles lat' lng' radius)))"

section \<open>Notions used to state the properties\<close>

text \<open>
  What a run of rows adds to the list under a key: nothing when no row has the key,
  the records in row order after what was there otherwise.
\<close>

definition extend_at :: "('k \<rightharpoonup> 'v list) \<Rightarrow> 'k \<Rightarrow> 'v list \<Rightarrow> 'v list option" where
  "extend_at m k new = (if new = [] then m k else Some (entries m k @ new))"

text \<open>The rows whose code, once padded, is \<open>k\<close>, in source order.\<close>

definition rows_with_code :: "(string option \<Rightarrow> string list option) \<Rightarrow> string \<Rightarrow> row list \<Rightarrow> row list" where
  "rows_with_code d k rows = filter (\<lambda>r. zipcode (make_record d r) = Some k) rows"

text \<open>The rows that land under a key of the city/state index, and of the grid.\<close>

definition rows_with_city_state ::
  "(string option \<Rightarrow> string list option) \<Rightarrow> string \<times> string \<Rightarrow> row list \<Rightarrow> row list" where
  "rows_with_city_state d k rows =
     filter (\<lambda>r. city_state_key (make_record d r) = Some k) rows"

definition rows_with_bucket ::
  "(string option \<Rightarrow> string list option) \<Rightarrow> int \<times> int \<Rightarrow> row list \<Rightarrow> row list" where
  "rows_with_bucket d k rows =
     filter (\<lambda>r. grid_key (make_record d r) = Inr (Some k)) rows"

text \<open>
  The rows on which \<^verbatim>\<open>int(lat * 10)\<close> and \<^verbatim>\<open>int(lng * 10)\<close> do not raise: the
  conversion runs only when both coordinates are there.
\<close>

fun is_fin :: "pyfloat \<Rightarrow> bool" where
  "is_fin (Fin x) = True"
| "is_fin PInf = False"
| "is_fin NInf = False"
| "is_fin NaN = False"

definition finite_coords :: "row \<Rightarrow> bool" where
  "finite_coords r =
     (case (r_lat r, r_lng r) of
        (Some la, Some lo) \<Rightarrow> is_fin la \<and> is_fin lo
      | _ \<Rightarrow> True)"

text \<open>A decoder that finds no list in any blob and a row of NULLs, for the examples.\<close>

definition decode_none :: "string option \<Rightarrow> string list option" where
  "decode_none b = None"

definition blank_row :: row where
  "blank_row =
     \<lparr> r_zipcode = None, r_zipcode_type = None, r_major_city = None,
       r_post_office_city = None, r_common_city_list_blob = None, r_county = None,
       r_state = None, r_lat = None, r_lng = None, r_timezone = None,
       r_radius_in_miles = None, r_area_code_list_blob = None, r_population = None,
       r_population_density = None, r_land_area_in_sqmi = None,
       r_water_area_in_sqmi = None, r_housing_units = None,
       r_occupied_housing_units = None, r_median_home_value = None,
       r_median_household_income = None, r_bounds_west = None, r_bounds_east = None,
       r_bounds_north = None, r_bounds_south = None \<rparr>"

text \<open>
  Example rows. \<open>row_a\<close> and \<open>row_b\<close> carry the same code once padded; \<open>row_c\<close> has a
  NULL code but a city, a state and coordinates; \<open>row_d\<close> and \<open>row_e\<close> carry a code of
  six characters and a code with a letter. The coordinates are dyadic, so that ten times
  their value is exact in double precision as well.
\<close>

definition row_a :: row where
  "row_a = blank_row\<lparr>r_zipcode := Some ''501'', r_major_city := Some '' holtsville '',
     r_state := Some ''ny'', r_lat := Some (Fin (163 / 4)), r_lng := Some (Fin (- (293 / 4)))\<rparr>"

definition row_b :: row where
  "row_b = blank_row\<lparr>r_zipcode := Some ''00501'', r_major_city := Some ''Brooklyn'',
     r_state := Some ''NY''\<rparr>"

definition row_c :: row where
  "row_c = blank_row\<lparr>r_major_city := Some ''Holtsville'', r_state := Some ''NY'',
     r_lat := Some (Fin (163 / 4)), r_lng := Some (Fin (- (293 / 4)))\<rparr>"

definition row_d :: row where
  "row_d = blank_row\<lparr>r_zipcode := Some ''123456''\<rparr>"

definition row_e :: row where
  "row_e = blank_row\<lparr>r_zipcode := Some ''12a''\<rparr>"

text \<open>
  The source is absent or unreadable: without a path given, no candidate path exists;
  or the path taken does not exist, or cannot be read as the table.
\<close>

definition source_unavailable :: "world \<Rightarrow> string option \<Rightarrow> bool" where
  "source_unavailable w sqlite_path =
     (case find_sqlite w sqlite_path of
        Inl e \<Rightarrow> True
      | Inr p \<Rightarrow> sqlite_rows w p = None \<or> \<not> path_exists w p)"

text \<open>
  Example worlds: \<open>world_a\<close> has the database in the working directory and no
  \<^verbatim>\<open>indices.bin\<close> yet; \<open>world_b\<close> has the same rows at another path, an
  \<^verbatim>\<open>indices.bin\<close> from before and a line printed already; \<open>world_missing\<close> has no
  database at all.
\<close>

definition tilde_expand :: "string \<Rightarrow> string \<Rightarrow> string" where
  "tilde_expand h p = (if take 1 p = ''~'' then h @ drop 1 p else p)"

definition world_a :: world where
  "world_a =
     \<lparr> path_exists = (\<lambda>p. p = ''simple_db.sqlite''),
       expanduser = tilde_expand ''/home/u'',
       home = ''/home/u'',
       sqlite_rows = (\<lambda>p. if p = ''simple_db.sqlite'' then Some [row_a, row_c, row_b] else None),
       indices_bin = None,
       stdout = [] \<rparr>"

definition world_b :: world where
  "world_b =
     \<lparr> path_exists = (\<lambda>p. p = ''/data/zip.sqlite''),
       expanduser = tilde_expand ''/root'',
       home = ''/root'',
       sqlite_rows = (\<lambda>p. if p = ''/data/zip.sqlite'' then Some [row_a, row_c, row_b] else None),
       indices_bin = Some empty_indices,
       stdout = [Saved ''indices.bin''] \<rparr>"

definition world_missing :: world where
  "world_missing =
     \<lparr> path_exists = (\<lambda>p. False),
       expanduser = tilde_expand ''/home/u'',
       home = ''/home/u'',
       sqlite_rows = (\<lambda>p. None),
       indices_bin = Some empty_indices,
       stdout = [] \<rparr>"

text \<open>
  For the example of a radius search: buckets taken to be seven miles wide at every
  latitude, and the grid built from \<open>row_f\<close>, a row at the place of \<open>row_a\<close> with a
  greater code, followed by \<open>row_a\<close>.
\<close>

definition row_f :: row where
  "row_f = blank_row\<lparr>r_zipcode := Some ''544'', r_lat := Some (Fin (163 / 4)),
     r_lng := Some (Fin (- (293 / 4)))\<rparr>"

definition seven_miles :: "real \<Rightarrow> real" where
  "seven_miles x = 7"

definition grid_fa :: "(int \<times> int) \<rightharpoonup> FastZipcode list" where
  "grid_fa = coordinate_grid (projr (build_rows decode_none [row_f, row_a] empty_indices))"

section \<open>The loop over the rows\<close>

lemma zfill_length: "length (zfill w s) = max w (length s)"
  by (auto simp: zfill_def split: list.splits)

lemma zfill_not_Nil: "0 < w \<Longrightarrow> zfill w s \<noteq> []"
  using zfill_length [of w s] by (cases "zfill w s") auto

lemma zipcode_make_record:
  "zipcode (make_record d r) = if_truthy (zfill 5) (r_zipcode r)"
  by (simp add: make_record_def)

lemma zipcode_make_record_Some:
  "zipcode (make_record d r) = Some c \<Longrightarrow>
     \<exists>raw. r_zipcode r = Some raw \<and> raw \<noteq> [] \<and> c = zfill 5 raw"
  by (auto simp: zipcode_make_record if_truthy_def split: option.splits if_splits)

lemma zipcode_make_record_not_Nil: "zipcode (make_record d r) \<noteq> Some []"
proof
  assume "zipcode (make_record d r) = Some []"
  then obtain raw where "[] = zfill 5 raw"
    using zipcode_make_record_Some by blast
  then show False using zfill_not_Nil [of 5 raw] by simp
qed

lemma insert_row_Inr:
  assumes "insert_row d r idx = Inr idx'"
  shows "zipcode_index idx' = put_zipcode (make_record d r) (zipcode_index idx)"
    and "city_state_index idx' = put_city_state (make_record d r) (city_state_index idx)"
    and "put_grid (make_record d r) (coordinate_grid idx) = Inr (coordinate_grid idx')"
  using assms by (auto simp: insert_row_def Let_def split: sum.splits)

lemma build_rows_append:
  "build_rows d (xs @ ys) idx =
     (case build_rows d xs idx of Inl e \<Rightarrow> Inl e | Inr idx' \<Rightarrow> build_rows d ys idx')"
  by (induction xs arbitrary: idx) (auto split: sum.splits)

lemma put_zipcode_make_record:
  "put_zipcode (make_record d r) m k =
     (if zipcode (make_record d r) = Some k then Some (make_record d r) else m k)"
  using zipcode_make_record_not_Nil [of d r]
  by (auto simp: put_zipcode_def split: option.splits)

lemma zipcode_index_build_rows:
  "build_rows d rows idx = Inr idx' \<Longrightarrow>
   zipcode_index idx' k =
     (case rows_with_code d k rows of
        [] \<Rightarrow> zipcode_index idx k
      | x # xs \<Rightarrow> Some (make_record d (last (x # xs))))"
proof (induction rows arbitrary: idx)
  case Nil
  then show ?case by (simp add: rows_with_code_def)
next
  case (Cons r rs)
  from Cons.prems obtain idx1 where
    s1: "insert_row d r idx = Inr idx1" and s2: "build_rows d rs idx1 = Inr idx'"
    by (auto split: sum.splits)
  have z1: "zipcode_index idx1 k =
      (if zipcode (make_record d r) = Some k then Some (make_record d r) else zipcode_index idx k)"
    using insert_row_Inr(1) [OF s1] by (simp add: put_zipcode_make_record)
  show ?case
    using Cons.IH [OF s2] z1
    by (auto simp: rows_with_code_def split: list.splits)
qed

lemma dom_zipcode_index_build_rows:
  assumes "build_rows d rows empty_indices = Inr idx"
  shows "dom (zipcode_index idx) = {k. rows_with_code d k rows \<noteq> []}"
  using zipcode_index_build_rows [OF assms]
  by (auto simp: empty_indices_def dom_def split: list.splits)

lemma append_at_apply:
  "append_at m k x k' =
     (if k' = k then Some ((case m k of None \<Rightarrow> [] | Some xs \<Rightarrow> xs) @ [x]) else m k')"
  by (simp add: append_at_def)

lemma city_state_index_build_rows:
  "build_rows d rows idx = Inr idx' \<Longrightarrow>
   city_state_index idx' k =
     extend_at (city_state_index idx) k (map (make_record d) (rows_with_city_state d k rows))"
proof (induction rows arbitrary: idx)
  case Nil
  then show ?case by (simp add: extend_at_def rows_with_city_state_def)
next
  case (Cons r rs)
  from Cons.prems obtain idx1 where
    s1: "insert_row d r idx = Inr idx1" and s2: "build_rows d rs idx1 = Inr idx'"
    by (auto split: sum.splits)
  have c1: "city_state_index idx1 k =
      (if city_state_key (make_record d r) = Some k
       then Some (entries (city_state_index idx) k @ [make_record d r])
       else city_state_index idx k)"
    using insert_row_Inr(2) [OF s1]
    by (auto simp: put_city_state_def append_at_apply entries_def split: option.splits)
  show ?case
    using Cons.IH [OF s2] c1
    by (auto simp: extend_at_def entries_def rows_with_city_state_def)
qed

lemma put_grid_Inr:
  assumes "put_grid z m = Inr m'"
  shows "m' k = (if grid_key z = Inr (Some k) then Some (entries m k @ [z]) else m k)"
proof (cases "grid_key z")
  case (Inl e)
  then show ?thesis using assms by (simp add: put_grid_def)
next
  case (Inr ko)
  show ?thesis
  proof (cases ko)
    case None
    then show ?thesis using assms Inr by (simp add: put_grid_def)
  next
    case (Some k')
    then have "m' = append_at m k' z" using assms Inr by (simp add: put_grid_def)
    then show ?thesis using Inr Some by (auto simp: append_at_apply entries_def)
  qed
qed

lemma coordinate_grid_build_rows:
  "build_rows d rows idx = Inr idx' \<Longrightarrow>
   coordinate_grid idx' k =
     extend_at (coordinate_grid idx) k (map (make_record d) (rows_with_bucket d k rows))"
proof (induction rows arbitrary: idx)
  case Nil
  then show ?case by (simp add: extend_at_def rows_with_bucket_def)
next
  case (Cons r rs)
  from Cons.prems obtain idx1 where
    s1: "insert_row d r idx = Inr idx1" and s2: "build_rows d rs idx1 = Inr idx'"
    by (auto split: sum.splits)
  have c1: "coordinate_grid idx1 k =
      (if grid_key (make_record d r) = Inr (Some k)
       then Some (entries (coordinate_grid idx) k @ [make_record d r])
       else coordinate_grid idx k)"
    using put_grid_Inr [OF insert_row_Inr(3) [OF s1]] .
  show ?case
    using Cons.IH [OF s2] c1
    by (auto simp: extend_at_def entries_def rows_with_bucket_def)
qed

lemma grid_key_finite:
  "finite_coords r \<longleftrightarrow> (\<exists>k. grid_key (make_record d r) = Inr k)"
  by (cases "r_lat r"; cases "r_lng r"; cases "the (r_lat r)"; cases "the (r_lng r)")
     (auto simp: finite_coords_def grid_key_def make_record_def)

lemma insert_row_total:
  "finite_coords r \<Longrightarrow> \<exists>idx'. insert_row d r idx = Inr idx'"
  using grid_key_finite [of r d]
  by (auto simp: insert_row_def Let_def put_grid_def split: sum.splits option.splits)

lemma build_rows_total:
  "\<forall>r\<in>set rows. finite_coords r \<Longrightarrow> \<exists>idx'. build_rows d rows idx = Inr idx'"
proof (induction rows arbitrary: idx)
  case Nil
  then show ?case by simp
next
  case (Cons r rs)
  then obtain idx1 where "insert_row d r idx = Inr idx1"
    using insert_row_total [of r d idx] by auto
  then show ?case using Cons by auto
qed

lemma build_rows_Inr_finite:
  "build_rows d rows idx = Inr idx' \<Longrightarrow> r \<in> set rows \<Longrightarrow> finite_coords r"
proof (induction rows arbitrary: idx)
  case Nil
  then show ?case by simp
next
  case (Cons x xs)
  from Cons.prems(1) obtain idx1 where
    s1: "insert_row d x idx = Inr idx1" and s2: "build_rows d xs idx1 = Inr idx'"
    by (auto split: sum.splits)
  have "finite_coords x"
    using insert_row_Inr(3) [OF s1] grid_key_finite [of x d]
    by (auto simp: put_grid_def split: sum.splits)
  then show ?case using Cons.IH [OF s2] Cons.prems(2) by auto
qed

section \<open>The zipcode index\<close>



section \<open>The distance function\<close>

text \<open>
  C5. The Haversine distance depends on its four arguments only, is the same in both
  directions and is zero from a point to itself.
\<close>

theorem haversine_symmetric_zero:
  "haversine_distance lat1 lng1 lat2 lng2 = haversine_distance lat2 lng2 lat1 lng1
   \<and> haversine_distance lat1 lng1 lat1 lng1 = 0"
proof
  have s: "(sin ((x - y) / 2))\<^sup>2 = (sin ((y - x) / 2))\<^sup>2" for x y :: real
  proof -
    have "(x - y) / 2 = - ((y - x) / 2)" by (simp add: field_simps)
    then have "sin ((x - y) / 2) = - sin ((y - x) / 2)" by (metis sin_minus)
    then show ?thesis by simp
  qed
  show "haversine_distance lat1 lng1 lat2 lng2 = haversine_distance lat2 lng2 lat1 lng1"
    unfolding haversine_distance_def Let_def
    using s [of "radians lat2" "radians lat1"] s [of "radians lng2" "radians lng1"]
    by (simp add: mult.commute)
  show "haversine_distance lat1 lng1 lat1 lng1 = 0"
    by (simp add: haversine_distance_def)
qed

section \<open>The coordinate grid\<close>

lemma extend_at_empty:
  "extend_at Map.empty k new = (if new = [] then None else Some new)"
  by (simp add: extend_at_def entries_def)






section \<open>The codes of the zipcode index\<close>

lemma is_digit_zero: "is_digit (CHR ''0'')"
  by (simp add: is_digit_def)

lemma not_digit_sign: "\<not> is_digit (CHR ''+'')" "\<not> is_digit (CHR ''-'')"
  by (simp_all add: is_digit_def)

lemma zfill_digits: "list_all is_digit (zfill w s) \<longleftrightarrow> list_all is_digit s"
  by (auto simp: zfill_def list_all_iff is_digit_zero split: list.splits)

lemma zfill_of_digits:
  "list_all is_digit s \<Longrightarrow> zfill w s = replicate (w - length s) (CHR ''0'') @ s"
  using not_digit_sign by (auto simp: zfill_def split: list.splits)

text \<open>
  C3, as stated, fails: a raw code of six characters is stored as it is, and a raw code
  with a letter keeps the letter.
\<close>

theorem stored_code_counterexample:
  "(case build_rows decode_none [row_d, row_e] empty_indices of
      Inl e \<Rightarrow> False
    | Inr idx \<Rightarrow>
        zipcode_index idx ''123456'' = Some (make_record decode_none row_d)
        \<and> zipcode (make_record decode_none row_d) = Some ''123456''
        \<and> length ''123456'' = 6
        \<and> zipcode_index idx ''0012a'' = Some (make_record decode_none row_e)
        \<and> zipcode (make_record decode_none row_e) = Some ''0012a''
        \<and> list_all is_digit ''0012a'' = False)"
  by code_simp

text \<open>
  C3, amended. Every record of the zipcode index is stored under its own code, and the
  code is the non-empty raw value of a row passed through \<^verbatim>\<open>zfill(5)\<close>: it has as
  many characters as the raw value and at least five, so exactly five when the raw value
  has at most five; it consists of digits exactly when the raw value does, and is then
  the raw value with zeros in front.
\<close>

theorem stored_code_is_zfill:
  assumes "build_rows d rows empty_indices = Inr idx"
    and "zipcode_index idx k = Some z"
  shows "zipcode z = Some k
         \<and> (\<exists>r\<in>set rows. \<exists>raw.
               r_zipcode r = Some raw \<and> raw \<noteq> [] \<and> z = make_record d r
               \<and> k = zfill 5 raw
               \<and> length k = max 5 (length raw)
               \<and> (length k = 5 \<longleftrightarrow> length raw \<le> 5)
               \<and> (list_all is_digit k \<longleftrightarrow> list_all is_digit raw)
               \<and> (list_all is_digit raw \<longrightarrow> k = replicate (5 - length raw) (CHR ''0'') @ raw))"
proof -
  from zipcode_index_build_rows [OF assms(1), of k] assms(2)
  obtain x xs where xs: "rows_with_code d k rows = x # xs"
    and z: "z = make_record d (last (x # xs))"
    by (auto simp: empty_indices_def split: list.splits)
  let ?r = "last (x # xs)"
  have "?r \<in> set (rows_with_code d k rows)"
    using xs last_in_set [of "x # xs"] by simp
  then have r: "?r \<in> set rows" and c: "zipcode (make_record d ?r) = Some k"
    by (simp_all add: rows_with_code_def)
  from zipcode_make_record_Some [OF c] obtain raw where
    raw: "r_zipcode ?r = Some raw" "raw \<noteq> []" "k = zfill 5 raw"
    by blast
  have l: "length k = max 5 (length raw)"
    using raw(3) by (simp add: zfill_length)
  have "\<exists>raw. r_zipcode ?r = Some raw \<and> raw \<noteq> [] \<and> z = make_record d ?r
               \<and> k = zfill 5 raw
               \<and> length k = max 5 (length raw)
               \<and> (length k = 5 \<longleftrightarrow> length raw \<le> 5)
               \<and> (list_all is_digit k \<longleftrightarrow> list_all is_digit raw)
               \<and> (list_all is_digit raw \<longrightarrow> k = replicate (5 - length raw) (CHR ''0'') @ raw)"
    using raw z l zfill_digits [of 5 raw] zfill_of_digits [of raw 5]
    by (intro exI [of _ raw]) auto
  then show ?thesis using r c z by blast
qed

theorem stored_code_is_zfill_witness:
  "build_rows decode_none [row_a, row_b] empty_indices
     = Inr (projr (build_rows decode_none [row_a, row_b] empty_indices))
   \<and> zipcode_index (projr (build_rows decode_none [row_a, row_b] empty_indices)) ''00501''
       = Some (make_record decode_none row_b)
   \<and> zipcode (make_record decode_none row_b) = Some ''00501''"
proof -
  have h1: "build_rows decode_none [row_a, row_b] empty_indices
     = Inr (projr (build_rows decode_none [row_a, row_b] empty_indices))"
    using build_rows_total [of "[row_a, row_b]" decode_none empty_indices]
    by (auto simp: finite_coords_def row_a_def row_b_def blank_row_def)
  have h2: "zipcode_index (projr (build_rows decode_none [row_a, row_b] empty_indices)) ''00501''
       = Some (make_record decode_none row_b)"
    by code_simp
  have c: "zipcode (make_record decode_none row_b) = Some ''00501''"
    by (rule conjunct1 [OF stored_code_is_zfill [OF h1 h2]])
  show ?thesis
    by (intro conjI h1 h2 c)
qed

section \<open>The city/state index\<close>





section \<open>Records that the zipcode index no longer reaches\<close>

lemma last_filter_drop:
  assumes "j < length xs" and "P (xs ! j)"
  shows "last (filter P xs) \<in> set (drop j xs)"
proof -
  have d: "xs ! j \<in> set (drop j xs)"
    using assms(1) by (metis Cons_nth_drop_Suc list.set_intros(1))
  then have ne: "filter P (drop j xs) \<noteq> []"
    using assms(2) by (auto simp: filter_empty_conv)
  have "filter P xs = filter P (take j xs) @ filter P (drop j xs)"
    by (metis append_take_drop_id filter_append)
  then have "last (filter P xs) = last (filter P (drop j xs))"
    using ne by simp
  moreover have "last (filter P (drop j xs)) \<in> set (filter P (drop j xs))"
    using ne by (rule last_in_set)
  ultimately show ?thesis by simp
qed

text \<open>
  C10. When row \<open>j\<close> comes after row \<open>i\<close> and both carry the code \<open>c\<close>, the zipcode
  index holds under \<open>c\<close> the record of a row at position \<open>j\<close> or later, while the
  record of row \<open>i\<close> is still in the city/state index under its key, if it has one, and
  in the grid under its bucket, if it has one.
\<close>

theorem overwritten_record_stays:
  assumes "build_rows d rows empty_indices = Inr idx"
    and "i < j" and "j < length rows"
    and "zipcode (make_record d (rows ! i)) = Some c"
    and "zipcode (make_record d (rows ! j)) = Some c"
  shows "(\<forall>k. city_state_key (make_record d (rows ! i)) = Some k \<longrightarrow>
            (\<exists>recs. city_state_index idx k = Some recs \<and> make_record d (rows ! i) \<in> set recs))
         \<and> (\<forall>k. grid_key (make_record d (rows ! i)) = Inr (Some k) \<longrightarrow>
            (\<exists>recs. coordinate_grid idx k = Some recs \<and> make_record d (rows ! i) \<in> set recs))
         \<and> zipcode_index idx c = Some (make_record d (last (rows_with_code d c rows)))
         \<and> last (rows_with_code d c rows) \<in> set (drop j rows)"
proof (intro conjI allI impI)
  have i: "rows ! i \<in> set rows" using assms(2,3) by simp
  {
    fix k
    assume k: "city_state_key (make_record d (rows ! i)) = Some k"
    then have m: "rows ! i \<in> set (rows_with_city_state d k rows)"
      using i by (simp add: rows_with_city_state_def)
    then have "rows_with_city_state d k rows \<noteq> []" by auto
    then have "city_state_index idx k = Some (map (make_record d) (rows_with_city_state d k rows))"
      using city_state_index_build_rows [OF assms(1), of k]
      by (simp add: empty_indices_def extend_at_empty)
    then show "\<exists>recs. city_state_index idx k = Some recs \<and> make_record d (rows ! i) \<in> set recs"
      using m by auto
  }
  {
    fix k
    assume k: "grid_key (make_record d (rows ! i)) = Inr (Some k)"
    then have m: "rows ! i \<in> set (rows_with_bucket d k rows)"
      using i by (simp add: rows_with_bucket_def)
    then have "rows_with_bucket d k rows \<noteq> []" by auto
    then have "coordinate_grid idx k = Some (map (make_record d) (rows_with_bucket d k rows))"
      using coordinate_grid_build_rows [OF assms(1), of k]
      by (simp add: empty_indices_def extend_at_empty)
    then show "\<exists>recs. coordinate_grid idx k = Some recs \<and> make_record d (rows ! i) \<in> set recs"
      using m by auto
  }
  have "rows ! j \<in> set (rows_with_code d c rows)"
    using assms(3,5) by (simp add: rows_with_code_def)
  then obtain x xs where "rows_with_code d c rows = x # xs"
    by (cases "rows_with_code d c rows") auto
  then show "zipcode_index idx c = Some (make_record d (last (rows_with_code d c rows)))"
    using zipcode_index_build_rows [OF assms(1), of c] by simp
  show "last (rows_with_code d c rows) \<in> set (drop j rows)"
    unfolding rows_with_code_def using assms(3,5) by (rule last_filter_drop)
qed

theorem overwritten_record_stays_witness:
  "build_rows decode_none [row_a, row_b] empty_indices
     = Inr (projr (build_rows decode_none [row_a, row_b] empty_indices))
   \<and> zipcode (make_record decode_none ([row_a, row_b] ! 0)) = Some ''00501''
   \<and> zipcode (make_record decode_none ([row_a, row_b] ! 1)) = Some ''00501''
   \<and> (\<exists>recs. city_state_index (projr (build_rows decode_none [row_a, row_b] empty_indices))
                (''Holtsville'', ''NY'') = Some recs
              \<and> make_record decode_none ([row_a, row_b] ! 0) \<in> set recs)
   \<and> (\<exists>recs. coordinate_grid (projr (build_rows decode_none [row_a, row_b] empty_indices))
                (407, - 732) = Some recs
              \<and> make_record decode_none ([row_a, row_b] ! 0) \<in> set recs)
   \<and> zipcode_index (projr (build_rows decode_none [row_a, row_b] empty_indices)) ''00501''
       = Some (make_record decode_none row_b)
   \<and> make_record decode_none row_b \<noteq> make_record decode_none ([row_a, row_b] ! 0)"
proof -
  let ?rows = "[row_a, row_b]"
  let ?idx = "projr (build_rows decode_none ?rows empty_indices)"
  have h1: "build_rows decode_none ?rows empty_indices = Inr ?idx"
    using build_rows_total [of ?rows decode_none empty_indices]
    by (auto simp: finite_coords_def row_a_def row_b_def blank_row_def)
  have h2: "(0::nat) < 1" by simp
  have h3: "1 < length ?rows" by simp
  have h4: "zipcode (make_record decode_none (?rows ! 0)) = Some ''00501''" by code_simp
  have h5: "zipcode (make_record decode_none (?rows ! 1)) = Some ''00501''" by code_simp
  note t = overwritten_record_stays [OF h1 h2 h3 h4 h5]
  have k1: "city_state_key (make_record decode_none (?rows ! 0)) = Some (''Holtsville'', ''NY'')"
    by code_simp
  have k2: "grid_key (make_record decode_none (?rows ! 0)) = Inr (Some (407, - 732))"
    by code_simp
  have c1: "\<exists>recs. city_state_index ?idx (''Holtsville'', ''NY'') = Some recs
              \<and> make_record decode_none (?rows ! 0) \<in> set recs"
    using t k1 by blast
  have c2: "\<exists>recs. coordinate_grid ?idx (407, - 732) = Some recs
              \<and> make_record decode_none (?rows ! 0) \<in> set recs"
    using t k2 by blast
  have l: "last (rows_with_code decode_none ''00501'' ?rows) = row_b" by code_simp
  have c3: "zipcode_index ?idx ''00501'' = Some (make_record decode_none row_b)"
    using t unfolding l by blast
  have c4: "make_record decode_none row_b \<noteq> make_record decode_none (?rows ! 0)"
    by code_simp
  show ?thesis
    by (intro conjI h1 h4 h5 c1 c2 c3 c4)
qed

section \<open>The whole build: outcomes\<close>

lemma fetchall_stdout: "fetchall (w\<lparr>stdout := s\<rparr>) p = fetchall w p"
  by (simp add: fetchall_def)

lemma build_no_path:
  "find_sqlite w sp = Inl e \<Longrightarrow> build_fast_indices d sp w = (w, Some e)"
  by (simp add: build_fast_indices_def)

lemma build_no_rows:
  "find_sqlite w sp = Inr p \<Longrightarrow> fetchall w p = Inl e \<Longrightarrow>
     build_fast_indices d sp w = (w\<lparr>stdout := stdout w @ [Building p]\<rparr>, Some e)"
  by (simp add: build_fast_indices_def Let_def fetchall_stdout)

lemma build_row_error:
  "find_sqlite w sp = Inr p \<Longrightarrow> fetchall w p = Inr rows \<Longrightarrow>
   build_rows d rows empty_indices = Inl e \<Longrightarrow>
     build_fast_indices d sp w = (w\<lparr>stdout := stdout w @ [Building p]\<rparr>, Some e)"
  by (simp add: build_fast_indices_def Let_def fetchall_stdout)

lemma build_done:
  "find_sqlite w sp = Inr p \<Longrightarrow> fetchall w p = Inr rows \<Longrightarrow>
   build_rows d rows empty_indices = Inr idx \<Longrightarrow>
     build_fast_indices d sp w =
       (w\<lparr>indices_bin := Some idx,
          stdout := stdout w @
            [Building p, Built (card (dom (zipcode_index idx))), Saved ''indices.bin'']\<rparr>,
        None)"
  by (simp add: build_fast_indices_def Let_def fetchall_stdout)

lemma build_success:
  assumes "snd (build_fast_indices d sp w) = None"
  shows "\<exists>p rows idx. find_sqlite w sp = Inr p \<and> fetchall w p = Inr rows
           \<and> build_rows d rows empty_indices = Inr idx
           \<and> fst (build_fast_indices d sp w) =
               w\<lparr>indices_bin := Some idx,
                  stdout := stdout w @
                    [Building p, Built (card (dom (zipcode_index idx))), Saved ''indices.bin'']\<rparr>"
proof (cases "find_sqlite w sp")
  case (Inl e)
  then show ?thesis using assms by (simp add: build_no_path)
next
  case p: (Inr p)
  show ?thesis
  proof (cases "fetchall w p")
    case (Inl e)
    then show ?thesis using assms p by (simp add: build_no_rows)
  next
    case rows: (Inr rows)
    show ?thesis
    proof (cases "build_rows d rows empty_indices")
      case (Inl e)
      then show ?thesis using assms p rows by (simp add: build_row_error)
    next
      case (Inr idx)
      then show ?thesis using p rows by (simp add: build_done)
    qed
  qed
qed

lemma build_failure:
  assumes "snd (build_fast_indices d sp w) = Some e"
  shows "indices_bin (fst (build_fast_indices d sp w)) = indices_bin w"
proof (cases "find_sqlite w sp")
  case (Inl e)
  then show ?thesis by (simp add: build_no_path)
next
  case p: (Inr p)
  show ?thesis
  proof (cases "fetchall w p")
    case (Inl e)
    then show ?thesis using p by (simp add: build_no_rows)
  next
    case rows: (Inr rows)
    show ?thesis
    proof (cases "build_rows d rows empty_indices")
      case (Inl e)
      then show ?thesis using p rows by (simp add: build_row_error)
    next
      case (Inr idx)
      then show ?thesis using assms p rows by (simp add: build_done)
    qed
  qed
qed

lemma unavailable_fails:
  assumes "source_unavailable w sp"
  shows "\<exists>e. snd (build_fast_indices d sp w) = Some e"
proof (cases "find_sqlite w sp")
  case (Inl e)
  then show ?thesis by (simp add: build_no_path)
next
  case p: (Inr p)
  then have "fetchall w p = Inl SqliteError"
    using assms by (auto simp: source_unavailable_def fetchall_def)
  then show ?thesis using p by (simp add: build_no_rows)
qed

lemma wm1: "source_unavailable world_missing None"
  by code_simp

lemma wm2: "first_existing world_missing (possible_paths world_missing) = None"
  by code_simp

lemma wa1: "find_sqlite world_a None = Inr ''simple_db.sqlite''"
  by code_simp

lemma wa2: "fetchall world_a ''simple_db.sqlite'' = Inr [row_a, row_c, row_b]"
  by code_simp

lemma wb1: "find_sqlite world_b (Some ''/data/zip.sqlite'') = Inr ''/data/zip.sqlite''"
  by code_simp

lemma wb2: "fetchall world_b ''/data/zip.sqlite'' = Inr [row_a, row_c, row_b]"
  by code_simp

lemma rows_acb:
  "build_rows decode_none [row_a, row_c, row_b] empty_indices
     = Inr (projr (build_rows decode_none [row_a, row_c, row_b] empty_indices))"
  using build_rows_total [of "[row_a, row_c, row_b]" decode_none empty_indices]
  by (auto simp: finite_coords_def row_a_def row_b_def row_c_def blank_row_def)

lemma zip_a: "zipcode (make_record decode_none row_a) = Some ''00501''"
  by code_simp

lemma zip_b: "zipcode (make_record decode_none row_b) = Some ''00501''"
  by code_simp

lemma zip_c: "zipcode (make_record decode_none row_c) = None"
  by code_simp

lemma count_acb:
  "card (dom (zipcode_index
      (projr (build_rows decode_none [row_a, row_c, row_b] empty_indices)))) = 1"
proof -
  have "{k. rows_with_code decode_none k [row_a, row_c, row_b] \<noteq> []} = {''00501''}"
    by (auto simp: rows_with_code_def zip_a zip_b zip_c)
  then show ?thesis
    using dom_zipcode_index_build_rows [OF rows_acb] by simp
qed

text \<open>
  C9. When the source is absent or unreadable the build ends with an exception and
  \<^verbatim>\<open>indices.bin\<close> is what it was before; with no path given and no candidate found,
  the exception is \<^verbatim>\<open>FileNotFoundError\<close> and nothing at all has happened. Whatever
  the exception, \<^verbatim>\<open>indices.bin\<close> is untouched. A build that ends without exception
  has written the file once, with the three indices built from all the rows.
\<close>

theorem no_container_without_source:
  "(source_unavailable w sp \<longrightarrow>
      (\<exists>e. snd (build_fast_indices d sp w) = Some e)
      \<and> indices_bin (fst (build_fast_indices d sp w)) = indices_bin w)
   \<and> (sp = None \<and> first_existing w (possible_paths w) = None \<longrightarrow>
        build_fast_indices d sp w = (w, Some FileNotFoundError))
   \<and> (\<forall>e. snd (build_fast_indices d sp w) = Some e \<longrightarrow>
        indices_bin (fst (build_fast_indices d sp w)) = indices_bin w)
   \<and> (snd (build_fast_indices d sp w) = None \<longrightarrow>
        (\<exists>p rows idx. find_sqlite w sp = Inr p \<and> fetchall w p = Inr rows
           \<and> build_rows d rows empty_indices = Inr idx
           \<and> fst (build_fast_indices d sp w) =
               w\<lparr>indices_bin := Some idx,
                  stdout := stdout w @
                    [Building p, Built (card (dom (zipcode_index idx))),
                     Saved ''indices.bin'']\<rparr>))"
proof (intro conjI impI allI)
  assume u: "source_unavailable w sp"
  then show e: "\<exists>e. snd (build_fast_indices d sp w) = Some e"
    by (rule unavailable_fails)
  then show "indices_bin (fst (build_fast_indices d sp w)) = indices_bin w"
    using build_failure by blast
next
  assume "sp = None \<and> first_existing w (possible_paths w) = None"
  then have "find_sqlite w sp = Inl FileNotFoundError"
    by (simp add: find_sqlite_def)
  then show "build_fast_indices d sp w = (w, Some FileNotFoundError)"
    by (rule build_no_path)
next
  fix e
  assume "snd (build_fast_indices d sp w) = Some e"
  then show "indices_bin (fst (build_fast_indices d sp w)) = indices_bin w"
    by (rule build_failure)
next
  assume "snd (build_fast_indices d sp w) = None"
  then show "\<exists>p rows idx. find_sqlite w sp = Inr p \<and> fetchall w p = Inr rows
           \<and> build_rows d rows empty_indices = Inr idx
           \<and> fst (build_fast_indices d sp w) =
               w\<lparr>indices_bin := Some idx,
                  stdout := stdout w @
                    [Building p, Built (card (dom (zipcode_index idx))),
                     Saved ''indices.bin'']\<rparr>"
    by (rule build_success)
qed

theorem no_container_without_source_witness:
  "source_unavailable world_missing None
   \<and> first_existing world_missing (possible_paths world_missing) = None
   \<and> snd (build_fast_indices decode_none None world_missing) = Some FileNotFoundError
   \<and> indices_bin (fst (build_fast_indices decode_none None world_missing))
       = indices_bin world_missing
   \<and> snd (build_fast_indices decode_none None world_a) = None
   \<and> (\<exists>idx. indices_bin (fst (build_fast_indices decode_none None world_a)) = Some idx)"
proof -
  note t1 = no_container_without_source [of world_missing None decode_none]
  note t2 = no_container_without_source [of world_a None decode_none]
  have c1: "snd (build_fast_indices decode_none None world_missing) = Some FileNotFoundError"
    using t1 wm2 by simp
  have c2: "indices_bin (fst (build_fast_indices decode_none None world_missing))
       = indices_bin world_missing"
    using t1 wm1 by blast
  have c3: "snd (build_fast_indices decode_none None world_a) = None"
    using build_done [OF wa1 wa2 rows_acb] by simp
  have "\<exists>p idx. fst (build_fast_indices decode_none None world_a) =
               world_a\<lparr>indices_bin := Some idx,
                  stdout := stdout world_a @
                    [Building p, Built (card (dom (zipcode_index idx))),
                     Saved ''indices.bin'']\<rparr>"
    using t2 c3 by blast
  then obtain p idx where "fst (build_fast_indices decode_none None world_a) =
               world_a\<lparr>indices_bin := Some idx,
                  stdout := stdout world_a @
                    [Building p, Built (card (dom (zipcode_index idx))),
                     Saved ''indices.bin'']\<rparr>"
    by blast
  then have c4: "\<exists>idx. indices_bin (fst (build_fast_indices decode_none None world_a)) = Some idx"
    by simp
  show ?thesis
    by (intro conjI wm1 wm2 c1 c2 c3 c4)
qed

text \<open>
  C8. Two builds that read the same sequence of rows, from whatever path and in
  whatever world, end the same way, and when they succeed they leave the same three
  indices in \<^verbatim>\<open>indices.bin\<close>: the same keys, and the same lists in the same order.
\<close>

theorem build_deterministic:
  assumes "find_sqlite w1 sp1 = Inr p1"
    and "find_sqlite w2 sp2 = Inr p2"
    and "fetchall w1 p1 = Inr rows"
    and "fetchall w2 p2 = Inr rows"
  shows "snd (build_fast_indices d sp1 w1) = snd (build_fast_indices d sp2 w2)
         \<and> (snd (build_fast_indices d sp1 w1) = None \<longrightarrow>
              (\<exists>idx. build_rows d rows empty_indices = Inr idx
                 \<and> indices_bin (fst (build_fast_indices d sp1 w1)) = Some idx
                 \<and> indices_bin (fst (build_fast_indices d sp2 w2)) = Some idx))"
proof (cases "build_rows d rows empty_indices")
  case (Inl e)
  show ?thesis
    using build_row_error [OF assms(1,3) Inl] build_row_error [OF assms(2,4) Inl] by simp
next
  case (Inr idx)
  show ?thesis
    using build_done [OF assms(1,3) Inr] build_done [OF assms(2,4) Inr] Inr by simp
qed

theorem build_deterministic_witness:
  "find_sqlite world_a None = Inr ''simple_db.sqlite''
   \<and> find_sqlite world_b (Some ''/data/zip.sqlite'') = Inr ''/data/zip.sqlite''
   \<and> fetchall world_a ''simple_db.sqlite'' = Inr [row_a, row_c, row_b]
   \<and> fetchall world_b ''/data/zip.sqlite'' = Inr [row_a, row_c, row_b]
   \<and> snd (build_fast_indices decode_none None world_a) = None
   \<and> indices_bin (fst (build_fast_indices decode_none None world_a))
       = indices_bin (fst (build_fast_indices decode_none (Some ''/data/zip.sqlite'') world_b))
   \<and> indices_bin world_a = None
   \<and> indices_bin world_b = Some empty_indices"
proof -
  note t = build_deterministic [OF wa1 wb1 wa2 wb2, of decode_none]
  have c1: "snd (build_fast_indices decode_none None world_a) = None"
    using build_done [OF wa1 wa2 rows_acb] by simp
  have c2: "indices_bin (fst (build_fast_indices decode_none None world_a))
       = indices_bin (fst (build_fast_indices decode_none (Some ''/data/zip.sqlite'') world_b))"
    using t c1 by auto
  have c3: "indices_bin world_a = None" by (simp add: world_a_def)
  have c4: "indices_bin world_b = Some empty_indices" by (simp add: world_b_def)
  show ?thesis
    by (intro conjI wa1 wb1 wa2 wb2 c1 c2 c3 c4)
qed

lemma zipcode_make_record_None:
  "\<not> truthy (r_zipcode r) \<Longrightarrow> zipcode (make_record d r) = None"
  by (auto simp: zipcode_make_record if_truthy_def truthy_def split: option.splits)

lemma build_rows_middle:
  assumes "build_rows d (pre @ r # post) idx0 = Inr idx"
  shows "\<exists>idx1 idx2. build_rows d pre idx0 = Inr idx1 \<and> insert_row d r idx1 = Inr idx2
           \<and> build_rows d post idx2 = Inr idx"
  using assms by (auto simp: build_rows_append split: sum.splits)

text \<open>
  C2, as stated, fails: a row with a NULL code is not dropped as a whole. The row
  \<open>row_c\<close> has no code, and its record is in the city/state index and in the grid.
\<close>

theorem null_code_row_counterexample:
  "r_zipcode row_c = None
   \<and> (case build_rows decode_none [row_c] empty_indices of
         Inl e \<Rightarrow> False
       | Inr idx \<Rightarrow>
           city_state_index idx (''Holtsville'', ''NY'') = Some [make_record decode_none row_c]
           \<and> coordinate_grid idx (407, - 732) = Some [make_record decode_none row_c])"
  by code_simp

text \<open>
  C2, amended. A row whose raw code is NULL or empty gets a record without a code; the
  zipcode index is left as it was by this row, the city/state index and the grid are
  updated under their own guards as for any row, the build goes on with the rows that
  follow, and the lines printed by the whole build are the three that every successful
  build prints: nothing is printed for the row.
\<close>

theorem null_code_row_skips_zipcode_index_only:
  assumes "build_fast_indices d sp w = (w', None)"
    and "find_sqlite w sp = Inr p"
    and "fetchall w p = Inr (pre @ r # post)"
    and "\<not> truthy (r_zipcode r)"
  shows "\<exists>idx1 idx2 idx.
           build_rows d pre empty_indices = Inr idx1
           \<and> insert_row d r idx1 = Inr idx2
           \<and> build_rows d post idx2 = Inr idx
           \<and> indices_bin w' = Some idx
           \<and> zipcode (make_record d r) = None
           \<and> zipcode_index idx2 = zipcode_index idx1
           \<and> city_state_index idx2 = put_city_state (make_record d r) (city_state_index idx1)
           \<and> put_grid (make_record d r) (coordinate_grid idx1) = Inr (coordinate_grid idx2)
           \<and> stdout w' = stdout w @
               [Building p, Built (card (dom (zipcode_index idx))), Saved ''indices.bin'']"
proof -
  have "snd (build_fast_indices d sp w) = None" using assms(1) by simp
  from build_success [OF this] assms(1,2,3)
  obtain idx where b: "build_rows d (pre @ r # post) empty_indices = Inr idx"
    and w': "w' = w\<lparr>indices_bin := Some idx,
                  stdout := stdout w @
                    [Building p, Built (card (dom (zipcode_index idx))), Saved ''indices.bin'']\<rparr>"
    by auto
  from build_rows_middle [OF b] obtain idx1 idx2 where
    s: "build_rows d pre empty_indices = Inr idx1" "insert_row d r idx1 = Inr idx2"
       "build_rows d post idx2 = Inr idx"
    by blast
  have z: "zipcode (make_record d r) = None"
    using assms(4) by (rule zipcode_make_record_None)
  have zi: "zipcode_index idx2 = zipcode_index idx1"
    using insert_row_Inr(1) [OF s(2)] z by (simp add: put_zipcode_def)
  show ?thesis
    using s z zi insert_row_Inr(2,3) [OF s(2)] w' by auto
qed

theorem null_code_row_skips_zipcode_index_only_witness:
  "snd (build_fast_indices decode_none None world_a) = None
   \<and> find_sqlite world_a None = Inr ''simple_db.sqlite''
   \<and> fetchall world_a ''simple_db.sqlite'' = Inr ([row_a] @ row_c # [row_b])
   \<and> truthy (r_zipcode row_c) = False
   \<and> stdout (fst (build_fast_indices decode_none None world_a))
       = [Building ''simple_db.sqlite'', Built 1, Saved ''indices.bin'']"
proof -
  let ?w' = "fst (build_fast_indices decode_none None world_a)"
  have c1: "snd (build_fast_indices decode_none None world_a) = None"
    using build_done [OF wa1 wa2 rows_acb] by simp
  then have h1: "build_fast_indices decode_none None world_a = (?w', None)"
    by (metis prod.collapse)
  have h3: "fetchall world_a ''simple_db.sqlite'' = Inr ([row_a] @ row_c # [row_b])"
    using wa2 by simp
  have h4: "\<not> truthy (r_zipcode row_c)" by code_simp
  from null_code_row_skips_zipcode_index_only [OF h1 wa1 h3 h4]
  obtain idx1 idx2 idx where
    s: "build_rows decode_none [row_a] empty_indices = Inr idx1"
       "insert_row decode_none row_c idx1 = Inr idx2"
       "build_rows decode_none [row_b] idx2 = Inr idx"
    and out: "stdout ?w' = stdout world_a @
        [Building ''simple_db.sqlite'', Built (card (dom (zipcode_index idx))),
         Saved ''indices.bin'']"
    by blast
  have "build_rows decode_none ([row_a] @ row_c # [row_b]) empty_indices = Inr idx"
    unfolding build_rows_append using s by simp
  then have "idx = projr (build_rows decode_none [row_a, row_c, row_b] empty_indices)"
    by simp
  then have n: "card (dom (zipcode_index idx)) = 1"
    by (simp only: count_acb)
  have e: "stdout world_a = []" by (simp add: world_a_def)
  have c5: "stdout ?w' = [Building ''simple_db.sqlite'', Built 1, Saved ''indices.bin'']"
    using out unfolding n e by simp
  have c4: "truthy (r_zipcode row_c) = False" using h4 by simp
  show ?thesis
    by (intro conjI c1 wa1 h3 c4 c5)
qed

section \<open>The radius search\<close>

lemma haversine_same_point: "haversine_distance a b a b = 0"
  by (simp add: haversine_distance_def)

lemma cand_fa:
  "candidates grid_fa (window_keys seven_miles (163 / 4) (- (293 / 4)) 1)
     = [make_record decode_none row_f, make_record decode_none row_a]"
  by code_simp

lemma dist_a: "record_distance (163 / 4) (- (293 / 4)) (make_record decode_none row_a) = Some 0"
  by (simp add: record_distance_def make_record_def row_a_def blank_row_def haversine_same_point)

lemma dist_f: "record_distance (163 / 4) (- (293 / 4)) (make_record decode_none row_f) = Some 0"
  by (simp add: record_distance_def make_record_def row_f_def blank_row_def haversine_same_point)

lemma zip_f: "zipcode (make_record decode_none row_f) = Some ''00544''"
  by code_simp

lemma code_order: "(''00501'' \<le> ''00544'') = True" "(''00544'' \<le> ''00501'') = False"
  by code_simp+

lemma res_fa:
  "by_coordinates seven_miles grid_fa (163 / 4) (- (293 / 4)) 1
     = [make_record decode_none row_a, make_record decode_none row_f]"
  by (simp add: by_coordinates_def cand_fa within_radius_def dist_a dist_f zip_a zip_f
      code_order)

lemma within_radius_Some:
  "within_radius la lo radius z \<Longrightarrow>
     \<exists>dst. record_distance la lo z = Some dst \<and> dst \<le> radius"
  by (cases "record_distance la lo z") (simp_all add: within_radius_def)

text \<open>
  C4. The radius search returns exactly the records of the scanned buckets whose
  distance from the query point is at most the radius, each as often as it is there;
  in the result an earlier record is never farther than a later one, and of two records
  at the same distance the earlier has the smaller code or the same.
\<close>

theorem by_coordinates_within_sorted:
  "mset (by_coordinates bucket_miles grid la lo radius) =
     filter_mset (within_radius la lo radius)
       (mset (candidates grid (window_keys bucket_miles la lo radius)))
   \<and> (\<forall>i j. i < j \<and> j < length (by_coordinates bucket_miles grid la lo radius) \<longrightarrow>
         (\<exists>di dj.
            record_distance la lo (by_coordinates bucket_miles grid la lo radius ! i) = Some di
            \<and> record_distance la lo (by_coordinates bucket_miles grid la lo radius ! j) = Some dj
            \<and> di \<le> radius \<and> dj \<le> radius \<and> di \<le> dj
            \<and> (di = dj \<longrightarrow>
                 zipcode (by_coordinates bucket_miles grid la lo radius ! i)
                   \<le> zipcode (by_coordinates bucket_miles grid la lo radius ! j))))"
proof (intro conjI allI impI)
  let ?res = "by_coordinates bucket_miles grid la lo radius"
  let ?key = "\<lambda>z. (record_distance la lo z, zipcode z)"
  show "mset ?res =
     filter_mset (within_radius la lo radius)
       (mset (candidates grid (window_keys bucket_miles la lo radius)))"
    by (simp add: by_coordinates_def)
  fix i j
  assume ij: "i < j \<and> j < length ?res"
  have s: "sorted (map ?key ?res)"
    unfolding by_coordinates_def by (rule sorted_sort_key)
  have w: "within_radius la lo radius z" if "z \<in> set ?res" for z
    using that by (simp add: by_coordinates_def)
  from ij have "?res ! i \<in> set ?res" and "?res ! j \<in> set ?res" by simp_all
  then have "within_radius la lo radius (?res ! i)" and "within_radius la lo radius (?res ! j)"
    using w by blast+
  then obtain di dj where
    d: "record_distance la lo (?res ! i) = Some di" "di \<le> radius"
       "record_distance la lo (?res ! j) = Some dj" "dj \<le> radius"
    using within_radius_Some by blast
  have "map ?key ?res ! i \<le> map ?key ?res ! j"
    using s ij by (simp add: sorted_iff_nth_mono)
  then have "?key (?res ! i) \<le> ?key (?res ! j)"
    using ij by simp
  then have "di \<le> dj \<and> (di = dj \<longrightarrow> zipcode (?res ! i) \<le> zipcode (?res ! j))"
    using d by (auto simp: less_eq_prod_def)
  then show "\<exists>di dj.
            record_distance la lo (?res ! i) = Some di
            \<and> record_distance la lo (?res ! j) = Some dj
            \<and> di \<le> radius \<and> dj \<le> radius \<and> di \<le> dj
            \<and> (di = dj \<longrightarrow> zipcode (?res ! i) \<le> zipcode (?res ! j))"
    using d by blast
qed

theorem by_coordinates_within_sorted_witness:
  "(0::nat) < 1
   \<and> 1 < length (by_coordinates seven_miles grid_fa (163 / 4) (- (293 / 4)) 1)
   \<and> candidates grid_fa (window_keys seven_miles (163 / 4) (- (293 / 4)) 1)
       = [make_record decode_none row_f, make_record decode_none row_a]
   \<and> by_coordinates seven_miles grid_fa (163 / 4) (- (293 / 4)) 1
       = [make_record decode_none row_a, make_record decode_none row_f]
   \<and> zipcode (by_coordinates seven_miles grid_fa (163 / 4) (- (293 / 4)) 1 ! 0)
       \<le> zipcode (by_coordinates seven_miles grid_fa (163 / 4) (- (293 / 4)) 1 ! 1)"
proof -
  let ?res = "by_coordinates seven_miles grid_fa (163 / 4) (- (293 / 4)) 1"
  have h1: "(0::nat) < 1" by simp
  have h2: "1 < length ?res" by (simp add: res_fa)
  from by_coordinates_within_sorted [of seven_miles grid_fa "163 / 4" "- (293 / 4)" 1] h1 h2
  obtain di dj where
    d: "record_distance (163 / 4) (- (293 / 4)) (?res ! 0) = Some di"
       "record_distance (163 / 4) (- (293 / 4)) (?res ! 1) = Some dj"
       "di = dj \<longrightarrow> zipcode (?res ! 0) \<le> zipcode (?res ! 1)"
    by blast
  have "di = 0" "dj = 0"
    using d(1,2) by (simp_all add: res_fa dist_a dist_f)
  then have c: "zipcode (?res ! 0) \<le> zipcode (?res ! 1)"
    using d(3) by simp
  show ?thesis
    by (intro conjI h1 h2 cand_fa res_fa c)
qed

end
